theory Spec2Isabelle
  imports Complex_Main
begin

section \<open>Python values, errors and the parts of the framework the module calls\<close>

text \<open>
  The module \<^verbatim>\<open>darts/models/rnn_model.py\<close> defines two classes: \<^verbatim>\<open>_RNNModule\<close>
  (a PyTorch module) and \<^verbatim>\<open>RNNModel\<close> (a forecasting model deriving from
  \<^verbatim>\<open>TorchForecastingModel\<close>). Python exceptions are values of \<open>error\<close>; a
  function that can raise returns \<open>error + 'a\<close>, with \<open>Inl\<close> for the exception.
  The text of an error message is not modelled.
\<close>

datatype error = ValueError | AttributeError | RuntimeError | BaseError

text \<open>
  The \<^verbatim>\<open>model\<close> argument of \<^verbatim>\<open>RNNModel.__init__\<close> is annotated
  \<^verbatim>\<open>Union[str, nn.Module]\<close>, which Python does not enforce. A value of \<open>'u model_arg\<close>
  is a string, an instance of \<^verbatim>\<open>nn.Module\<close> (of type \<open>'u\<close>), or one of the plain
  Python values below, which are neither.
\<close>

datatype py_other = PyNone | PyInt int | PyBool bool | PyFloat real

datatype 'u model_arg = Str string | Module 'u | Other py_other

text \<open>Values of the keyword-argument dictionary: integers, or anything else.\<close>

datatype 'x py_value = IntV int | OtherV 'x

type_synonym 'x kwargs = "string \<rightharpoonup> 'x py_value"

text \<open>
  The attributes of the base class \<^verbatim>\<open>TorchForecastingModel\<close>. The file reads only
  \<^verbatim>\<open>self.model\<close>, the module the base class stores after calling
  \<^verbatim>\<open>_create_model\<close>; every other attribute of the base class is kept in \<open>rest\<close>.
\<close>

record ('mdl, 'b) TorchForecastingModel =
  model :: 'mdl
  rest :: 'b

text \<open>The attributes \<^verbatim>\<open>RNNModel.__init__\<close> sets, after those of the base class.\<close>

record ('mdl, 'b, 'u) RNNModel =
  base :: "('mdl, 'b) TorchForecastingModel"
  rnn_type_or_module :: "'u model_arg"
  dropout :: real
  hidden_dim :: int
  training_length :: int
  is_recurrent :: bool
  is_probabilistic :: bool

section \<open>Building the training dataset\<close>

text \<open>
  The keyword arguments of the call \<^verbatim>\<open>ShiftedDataset(target_series=..., covariates=...,
  length=..., shift_covariates=..., shift=...)\<close>. The class \<^verbatim>\<open>ShiftedDataset\<close> lives in
  \<^verbatim>\<open>darts.utils.data\<close>; its constructor is the parameter \<open>ShiftedDataset\<close> of
  \<open>build_train_dataset\<close>.
\<close>

record 'ts ShiftedDataset_args =
  target_series :: "'ts list"
  covariates :: "'ts list option"
  ds_length :: int
  shift_covariates :: bool
  shift :: int

definition build_train_dataset ::
  "('ts ShiftedDataset_args \<Rightarrow> 'ds) \<Rightarrow> ('mdl, 'b, 'u) RNNModel \<Rightarrow>
   'ts list \<Rightarrow> 'ts list option \<Rightarrow> 'ds" where
  "build_train_dataset ShiftedDataset self target covs =
     ShiftedDataset \<lparr>target_series = target,
                     covariates = covs,
                     ds_length = training_length self,
                     shift_covariates = True,
                     shift = 1\<rparr>"

section \<open>Tensors and slicing\<close>

text \<open>
  A slice bound of Python (and of PyTorch indexing): a negative bound counts from the end,
  and a bound outside the sequence is clamped to it. \<open>slice_upto k xs\<close> is
  \<^verbatim>\<open>xs[:k]\<close> and \<open>slice_from k xs\<close> is \<^verbatim>\<open>xs[k:]\<close>.
\<close>

definition slice_bound :: "int \<Rightarrow> nat \<Rightarrow> nat" where
  "slice_bound k n = (if k < 0 then nat (int n + k) else min (nat k) n)"

definition slice_upto :: "int \<Rightarrow> 'a list \<Rightarrow> 'a list" where
  "slice_upto k xs = take (slice_bound k (length xs)) xs"

definition slice_from :: "int \<Rightarrow> 'a list \<Rightarrow> 'a list" where
  "slice_from k xs = drop (slice_bound k (length xs)) xs"

text \<open>
  The tensors the model handles have three dimensions
  \<^verbatim>\<open>(batch_size, input_length, size)\<close>: a list of batches, each a list of time steps,
  each a list of components. The components are of an arbitrary type \<open>'a\<close> (PyTorch's
  floating-point numbers, whose arithmetic is not modelled). \<open>last_dim_upto k t\<close> is
  \<^verbatim>\<open>t[:, :, :k]\<close> and \<open>last_dim_from k t\<close> is \<^verbatim>\<open>t[:, :, k:]\<close>.
\<close>

type_synonym 'a tensor = "'a list list list"

definition last_dim_upto :: "int \<Rightarrow> 'a tensor \<Rightarrow> 'a tensor" where
  "last_dim_upto k t = map (map (slice_upto k)) t"

definition last_dim_from :: "int \<Rightarrow> 'a tensor \<Rightarrow> 'a tensor" where
  "last_dim_from k t = map (map (slice_from k)) t"

definition elementwise :: "('a \<Rightarrow> 'a) \<Rightarrow> 'a tensor \<Rightarrow> 'a tensor" where
  "elementwise f t = map (map (map f)) t"

section \<open>Gaussian parameters from the network output\<close>

text \<open>
  \<^verbatim>\<open>_means_and_vars_from_output\<close>. The activation \<^verbatim>\<open>nn.Softplus()\<close> is the
  parameter \<open>Softplus\<close>, applied to each component; the attribute
  \<^verbatim>\<open>self.model.target_size\<close> is read by the parameter \<open>target_size_of\<close>.
\<close>

definition means_and_vars_from_output ::
  "('mdl \<Rightarrow> int) \<Rightarrow> ('a \<Rightarrow> 'a) \<Rightarrow> ('mdl, 'b, 'u) RNNModel \<Rightarrow> 'a tensor \<Rightarrow>
   'a tensor \<times> 'a tensor" where
  "means_and_vars_from_output target_size_of Softplus self output =
     (let softplus_activation = elementwise Softplus;
          output_means = last_dim_upto (target_size_of (model (base self))) output;
          output_vars =
            softplus_activation (last_dim_from (target_size_of (model (base self))) output)
      in (output_means, output_vars))"

subsection \<open>The same method on a store of tensor storages\<close>

text \<open>
  In PyTorch a slice is a view: a new tensor object that shares the storage of the tensor
  it was taken from, so that a write through either is seen by both. An activation
  allocates a new storage for its result. To state that \<^verbatim>\<open>_means_and_vars_from_output\<close>
  leaves its argument as it was, the method is modelled a second time on an explicit
  store: \<open>cells\<close> maps a storage address to its contents, the addresses from
  \<open>next_free\<close> on are unused, and a tensor is a reference to a storage together with the
  slices of the last dimension through which the storage is seen.
\<close>

datatype last_slice = Upto int | From int

fun apply_slice :: "last_slice \<Rightarrow> 'a list \<Rightarrow> 'a list" where
  "apply_slice (Upto k) xs = slice_upto k xs"
| "apply_slice (From k) xs = slice_from k xs"

record tensor_ref =
  storage :: nat
  view :: "last_slice list"

record 'a store =
  cells :: "nat \<Rightarrow> 'a tensor"
  next_free :: nat

definition deref :: "'a store \<Rightarrow> tensor_ref \<Rightarrow> 'a tensor" where
  "deref st r = map (map (\<lambda>row. fold apply_slice (view r) row)) (cells st (storage r))"

definition slice_ref :: "last_slice \<Rightarrow> tensor_ref \<Rightarrow> tensor_ref" where
  "slice_ref s r = r\<lparr>view := view r @ [s]\<rparr>"

definition alloc :: "'a tensor \<Rightarrow> 'a store \<Rightarrow> tensor_ref \<times> 'a store" where
  "alloc t st =
     (\<lparr>storage = next_free st, view = []\<rparr>,
      st\<lparr>cells := (cells st)(next_free st := t), next_free := Suc (next_free st)\<rparr>)"

definition activation_ref ::
  "('a \<Rightarrow> 'a) \<Rightarrow> tensor_ref \<Rightarrow> 'a store \<Rightarrow> tensor_ref \<times> 'a store" where
  "activation_ref f r st = alloc (elementwise f (deref st r)) st"

definition means_and_vars_from_output_store ::
  "('mdl \<Rightarrow> int) \<Rightarrow> ('a \<Rightarrow> 'a) \<Rightarrow> ('mdl, 'b, 'u) RNNModel \<Rightarrow> tensor_ref \<Rightarrow> 'a store \<Rightarrow>
   (tensor_ref \<times> tensor_ref) \<times> 'a store" where
  "means_and_vars_from_output_store target_size_of Softplus self output st =
     (let softplus_activation = activation_ref Softplus;
          output_means = slice_ref (Upto (target_size_of (model (base self)))) output;
          (output_vars, st') =
            softplus_activation
              (slice_ref (From (target_size_of (model (base self)))) output) st
      in ((output_means, output_vars), st'))"

section \<open>Prediction output and loss\<close>

text \<open>
  \<^verbatim>\<open>_produce_predict_output\<close>. The call \<^verbatim>\<open>self.model(input, last_hidden_state)\<close> is
  the parameter \<open>call\<close>: it may raise, it returns the output tensor with the new hidden
  state, and it may change the state \<open>'s\<close> of the PyTorch runtime (its random number
  generator). \<^verbatim>\<open>torch.normal(mean, std)\<close> is the parameter \<open>normal\<close>, which draws from
  that generator.
\<close>

definition produce_predict_output ::
  "('mdl \<Rightarrow> 'a tensor \<Rightarrow> 'h option \<Rightarrow> 's \<Rightarrow> error + (('a tensor \<times> 'h) \<times> 's)) \<Rightarrow>
   ('mdl \<Rightarrow> int) \<Rightarrow> ('a \<Rightarrow> 'a) \<Rightarrow>
   ('a tensor \<Rightarrow> 'a tensor \<Rightarrow> 's \<Rightarrow> error + ('a tensor \<times> 's)) \<Rightarrow>
   ('mdl, 'b, 'u) RNNModel \<Rightarrow> 'a tensor \<Rightarrow> 'h option \<Rightarrow> 's \<Rightarrow>
   error + (('a tensor \<times> 'h) \<times> 's)" where
  "produce_predict_output call target_size_of Softplus normal self input last_hidden_state s =
     (if is_probabilistic self then
        (case call (model (base self)) input last_hidden_state s of
           Inl e \<Rightarrow> Inl e
         | Inr ((output, hidden), s1) \<Rightarrow>
             (let (output_means, output_vars) =
                    means_and_vars_from_output target_size_of Softplus self output
              in case normal output_means output_vars s1 of
                   Inl e \<Rightarrow> Inl e
                 | Inr (sample, s2) \<Rightarrow> Inr ((sample, hidden), s2)))
      else call (model (base self)) input last_hidden_state s)"

text \<open>
  \<^verbatim>\<open>_compute_loss\<close>. \<open>GaussianNLLLoss r\<close> is the loss
  \<^verbatim>\<open>nn.GaussianNLLLoss(reduction=r)\<close>, called with input, target and variance;
  \<open>super_compute_loss\<close> is \<^verbatim>\<open>TorchForecastingModel._compute_loss\<close>, which receives the
  object itself. Both are parameters, with losses of an arbitrary type \<open>'l\<close>.
\<close>

definition compute_loss ::
  "(string \<Rightarrow> 'a tensor \<Rightarrow> 'a tensor \<Rightarrow> 'a tensor \<Rightarrow> error + 'l) \<Rightarrow>
   (('mdl, 'b, 'u) RNNModel \<Rightarrow> 'a tensor \<Rightarrow> 'a tensor \<Rightarrow> error + 'l) \<Rightarrow>
   ('mdl \<Rightarrow> int) \<Rightarrow> ('a \<Rightarrow> 'a) \<Rightarrow>
   ('mdl, 'b, 'u) RNNModel \<Rightarrow> 'a tensor \<Rightarrow> 'a tensor \<Rightarrow> error + 'l" where
  "compute_loss GaussianNLLLoss super_compute_loss target_size_of Softplus self output target =
     (if is_probabilistic self then
        (let gaussian_loss = GaussianNLLLoss ''sum'';
             (output_means, output_vars) =
               means_and_vars_from_output target_size_of Softplus self output
         in gaussian_loss output_means target output_vars)
      else super_compute_loss self output target)"

section \<open>Construction of the model\<close>

text \<open>
  Modelled from the spec: \<^verbatim>\<open>raise_if_not\<close> of \<^verbatim>\<open>darts.logging\<close> is not among the
  sources. As its name and its use say, it raises (a \<^verbatim>\<open>ValueError\<close> with the given
  message) when the condition is false and does nothing otherwise; the message and the
  logger are left out.
\<close>

definition raise_if_not :: "bool \<Rightarrow> error + unit" where
  "raise_if_not condition = (if \<not> condition then Inl ValueError else Inr ())"

text \<open>\<^verbatim>\<open>isinstance(model, nn.Module)\<close>.\<close>

fun isinstance_Module :: "'u model_arg \<Rightarrow> bool" where
  "isinstance_Module (Module _) = True"
| "isinstance_Module _ = False"

text \<open>
  \<^verbatim>\<open>RNNModel.__init__\<close>. \<open>super_init\<close> is \<^verbatim>\<open>TorchForecastingModel.__init__\<close>, called with
  the keyword arguments; it may raise. The decorator \<^verbatim>\<open>random_method\<close> consumes
  \<open>random_state\<close> to seed the generator and passes every other argument on, so the body
  below never reads it.
\<close>

definition RNNModel_init ::
  "('x kwargs \<Rightarrow> error + ('mdl, 'b) TorchForecastingModel) \<Rightarrow>
   'u model_arg \<Rightarrow> int \<Rightarrow> int \<Rightarrow> real \<Rightarrow> int \<Rightarrow> bool \<Rightarrow> 'r option \<Rightarrow> 'x kwargs \<Rightarrow>
   error + ('mdl, 'b, 'u) RNNModel" where
  "RNNModel_init super_init model_arg input_chunk_length hidden_dim_arg dropout_arg
       training_length_arg probabilistic random_state kwargs =
     (let kwargs = kwargs(''input_chunk_length'' \<mapsto> IntV input_chunk_length);
          kwargs = kwargs(''output_chunk_length'' \<mapsto> IntV 1)
      in case super_init kwargs of
           Inl e \<Rightarrow> Inl e
         | Inr b \<Rightarrow>
             (case (if model_arg \<notin> set [Str ''RNN'', Str ''LSTM'', Str ''GRU'']
                    then raise_if_not (isinstance_Module model_arg)
                    else Inr ()) of
                Inl e \<Rightarrow> Inl e
              | Inr _ \<Rightarrow>
                  Inr \<lparr>base = b,
                       rnn_type_or_module = model_arg,
                       dropout = dropout_arg,
                       hidden_dim = hidden_dim_arg,
                       training_length = training_length_arg,
                       is_recurrent = True,
                       is_probabilistic = probabilistic\<rparr>))"

section \<open>The recurrent module\<close>

text \<open>
  The PyTorch layers \<^verbatim>\<open>_RNNModule\<close> is made of, by the attributes their constructors
  store. \<open>nn_recurrent name ...\<close> is the call
  \<^verbatim>\<open>getattr(nn, name)(input_size, hidden_size, num_layers, batch_first=..., dropout=...)\<close>.
  Of the attributes of \<^verbatim>\<open>torch.nn\<close> only the three recurrent classes
  \<^verbatim>\<open>RNN\<close>, \<^verbatim>\<open>LSTM\<close> and \<^verbatim>\<open>GRU\<close> are modelled, the names the docstring of
  \<^verbatim>\<open>_RNNModule\<close> admits; any other name is an error here. The constructors reject a
  dropout outside \<open>[0, 1]\<close>, a hidden size or a number of layers that is not positive and
  a negative size. The weights, which PyTorch draws at random, are not modelled.
\<close>

record recurrent =
  mode :: string
  input_size :: int
  hidden_size :: int
  num_layers :: int
  batch_first :: bool
  rnn_dropout :: real

record Linear =
  in_features :: int
  out_features :: int

definition nn_recurrent ::
  "string \<Rightarrow> int \<Rightarrow> int \<Rightarrow> int \<Rightarrow> bool \<Rightarrow> real \<Rightarrow> error + recurrent" where
  "nn_recurrent name_arg input_size_arg hidden_size_arg num_layers_arg batch_first_arg
       dropout_arg =
     (if name_arg \<notin> set [''RNN'', ''LSTM'', ''GRU''] then Inl AttributeError
      else if \<not> (0 \<le> dropout_arg \<and> dropout_arg \<le> 1) then Inl ValueError
      else if hidden_size_arg \<le> 0 \<or> num_layers_arg \<le> 0 then Inl ValueError
      else if input_size_arg < 0 then Inl RuntimeError
      else Inr \<lparr>mode = name_arg,
                input_size = input_size_arg,
                hidden_size = hidden_size_arg,
                num_layers = num_layers_arg,
                batch_first = batch_first_arg,
                rnn_dropout = dropout_arg\<rparr>)"

definition nn_Linear :: "int \<Rightarrow> int \<Rightarrow> error + Linear" where
  "nn_Linear in_features_arg out_features_arg =
     (if in_features_arg < 0 \<or> out_features_arg < 0 then Inl RuntimeError
      else Inr \<lparr>in_features = in_features_arg, out_features = out_features_arg\<rparr>)"

text \<open>Python's \<^verbatim>\<open>int(b)\<close> of a boolean.\<close>

definition int_of_bool :: "bool \<Rightarrow> int" where
  "int_of_bool b = (if b then 1 else 0)"

text \<open>\<^verbatim>\<open>_RNNModule\<close> and its constructor.\<close>

record RNNModule =
  target_size :: int
  name :: string
  module_is_probabilistic :: bool
  rnn :: recurrent
  V :: Linear

definition RNNModule_init ::
  "string \<Rightarrow> int \<Rightarrow> int \<Rightarrow> int \<Rightarrow> real \<Rightarrow> bool \<Rightarrow> error + RNNModule" where
  "RNNModule_init name_arg input_size_arg hidden_dim_arg target_size_arg dropout_arg
       probabilistic =
     (case nn_recurrent name_arg input_size_arg hidden_dim_arg 1 True dropout_arg of
        Inl e \<Rightarrow> Inl e
      | Inr r \<Rightarrow>
          (case nn_Linear hidden_dim_arg
                  (target_size_arg + int_of_bool probabilistic * target_size_arg) of
             Inl e \<Rightarrow> Inl e
           | Inr v \<Rightarrow>
               Inr \<lparr>target_size = target_size_arg,
                    name = name_arg,
                    module_is_probabilistic = probabilistic,
                    rnn = r,
                    V = v\<rparr>))"

text \<open>
  \<^verbatim>\<open>RNNModel._create_model\<close> returns either a module it builds or the value stored in
  \<^verbatim>\<open>rnn_type_or_module\<close>. In the first branch the stored value is one of the three
  strings, so the last case of the inner distinction is never reached.
\<close>

datatype 'u created = Built RNNModule | Supplied "'u model_arg"

definition create_model ::
  "('mdl, 'b, 'u) RNNModel \<Rightarrow> int \<Rightarrow> int \<Rightarrow> error + 'u created" where
  "create_model self input_dim output_dim =
     (if rnn_type_or_module self \<in> set [Str ''RNN'', Str ''LSTM'', Str ''GRU''] then
        (case rnn_type_or_module self of
           Str s \<Rightarrow>
             (case RNNModule_init s input_dim (hidden_dim self) output_dim (dropout self)
                     (is_probabilistic self) of
                Inl e \<Rightarrow> Inl e
              | Inr m \<Rightarrow> Inr (Built m))
         | other \<Rightarrow> Inr (Supplied other))
      else Inr (Supplied (rnn_type_or_module self)))"

subsection \<open>The forward pass, on shapes\<close>

text \<open>
  The values a recurrent layer computes are outside this development; the forward pass is
  modelled on the shapes of the tensors, a shape being the list of the sizes of the
  dimensions. The hidden state of an \<^verbatim>\<open>RNN\<close> or a \<^verbatim>\<open>GRU\<close> is one tensor, that of an
  \<^verbatim>\<open>LSTM\<close> a pair; each has the shape \<^verbatim>\<open>(num_layers, batch_size, hidden_size)\<close>.
  A recurrent layer takes an input of three dimensions whose last is its input size and a
  sequence that is not empty, and returns an output whose last dimension is its hidden
  size. A linear layer replaces the last dimension, which must be \<open>in_features\<close>, by
  \<open>out_features\<close>. \<open>view_infer x d0 d2\<close> is \<^verbatim>\<open>x.view(d0, -1, d2)\<close>: the middle dimension
  is inferred from the number of elements, which fails when \<open>d0 * d2\<close> is zero or does not
  divide it.
\<close>

type_synonym shape = "nat list"

datatype hidden = H shape | HC shape shape

definition hidden_shape :: "recurrent \<Rightarrow> nat \<Rightarrow> shape" where
  "hidden_shape r batch = [nat (num_layers r), batch, nat (hidden_size r)]"

definition new_hidden :: "recurrent \<Rightarrow> nat \<Rightarrow> hidden" where
  "new_hidden r batch =
     (if mode r = ''LSTM'' then HC (hidden_shape r batch) (hidden_shape r batch)
      else H (hidden_shape r batch))"

definition rnn_forward :: "recurrent \<Rightarrow> shape \<Rightarrow> hidden option \<Rightarrow> error + (shape \<times> hidden)" where
  "rnn_forward r x h =
     (case x of
        [d0, d1, f] \<Rightarrow>
          (let batch = (if batch_first r then d0 else d1);
               seq = (if batch_first r then d1 else d0)
           in if int f \<noteq> input_size r \<or> seq = 0 then Inl RuntimeError
              else if h \<noteq> None \<and> h \<noteq> Some (new_hidden r batch) then Inl RuntimeError
              else Inr ([d0, d1, nat (hidden_size r)], new_hidden r batch))
      | _ \<Rightarrow> Inl RuntimeError)"

definition linear_forward :: "Linear \<Rightarrow> shape \<Rightarrow> error + shape" where
  "linear_forward v x =
     (if x \<noteq> [] \<and> int (last x) = in_features v
      then Inr (butlast x @ [nat (out_features v)])
      else Inl RuntimeError)"

definition view_infer :: "shape \<Rightarrow> int \<Rightarrow> int \<Rightarrow> error + shape" where
  "view_infer x d0 d2 =
     (let numel = int (prod_list x); newsize = d0 * d2
      in if d0 < 0 \<or> d2 < 0 then Inl RuntimeError
         else if 0 < newsize \<and> numel mod newsize = 0
           then Inr [nat d0, nat (numel div newsize), nat d2]
         else Inl RuntimeError)"

text \<open>\<^verbatim>\<open>x.size(0)\<close>, which a tensor without dimensions does not have.\<close>

definition size0 :: "shape \<Rightarrow> error + nat" where
  "size0 x = (case x of [] \<Rightarrow> Inl RuntimeError | d # _ \<Rightarrow> Inr d)"

definition forward :: "RNNModule \<Rightarrow> shape \<Rightarrow> hidden option \<Rightarrow> error + (shape \<times> hidden)" where
  "forward self x h =
     (case size0 x of
        Inl e \<Rightarrow> Inl e
      | Inr batch_size \<Rightarrow>
          (case (case h of
                   None \<Rightarrow> rnn_forward (rnn self) x None
                 | Some h' \<Rightarrow> rnn_forward (rnn self) x (Some h')) of
             Inl e \<Rightarrow> Inl e
           | Inr (out, last_hidden_state) \<Rightarrow>
               (case linear_forward (V self) out of
                  Inl e \<Rightarrow> Inl e
                | Inr predictions \<Rightarrow>
                    (case view_infer predictions (int batch_size)
                            (target_size self
                             + int_of_bool (module_is_probabilistic self) * target_size self) of
                       Inl e \<Rightarrow> Inl e
                     | Inr predictions' \<Rightarrow> Inr (predictions', last_hidden_state)))))"

section \<open>Sampling\<close>

text \<open>
  \<^verbatim>\<open>nn.Softplus()\<close> with its defaults (\<^verbatim>\<open>beta = 1\<close>, \<^verbatim>\<open>threshold = 20\<close>), on real
  numbers.
\<close>

definition nn_Softplus :: "real \<Rightarrow> real" where
  "nn_Softplus x = (if 20 < x then x else ln (1 + exp x))"

text \<open>
  \<^verbatim>\<open>torch.normal(mean, std)\<close> on real tensors. The generator is the stream of standard
  normal draws it will hand out, one for each component in row-major order; a component of
  the sample is its mean plus its standard deviation times its draw. A negative standard
  deviation is an error, and so are tensors of different shapes (broadcasting is not
  modelled).
\<close>

type_synonym generator = "nat \<Rightarrow> real"

fun normal_row :: "real list \<Rightarrow> real list \<Rightarrow> generator \<Rightarrow> real list \<times> generator" where
  "normal_row (m # ms) (s # ss) g =
     (let (r, g') = normal_row ms ss (\<lambda>n. g (Suc n)) in ((m + s * g 0) # r, g'))"
| "normal_row _ _ g = ([], g)"

fun normal_rows ::
  "real list list \<Rightarrow> real list list \<Rightarrow> generator \<Rightarrow> real list list \<times> generator" where
  "normal_rows (m # ms) (s # ss) g =
     (let (r, g') = normal_row m s g; (rs, g'') = normal_rows ms ss g' in (r # rs, g''))"
| "normal_rows _ _ g = ([], g)"

fun normal_tensor :: "real tensor \<Rightarrow> real tensor \<Rightarrow> generator \<Rightarrow> real tensor \<times> generator" where
  "normal_tensor (m # ms) (s # ss) g =
     (let (r, g') = normal_rows m s g; (rs, g'') = normal_tensor ms ss g' in (r # rs, g''))"
| "normal_tensor _ _ g = ([], g)"

definition tensor_shape :: "'a tensor \<Rightarrow> nat list list" where
  "tensor_shape t = map (map length) t"

definition torch_normal ::
  "real tensor \<Rightarrow> real tensor \<Rightarrow> generator \<Rightarrow> error + (real tensor \<times> generator)" where
  "torch_normal mean std g =
     (if tensor_shape mean = tensor_shape std \<and> \<not> list_ex (\<lambda>x. x < 0) (concat (concat std))
      then Inr (normal_tensor mean std g)
      else Inl RuntimeError)"

text \<open>
  The Gaussian sample with given means and variances: the standard deviation of a component
  is the square root of its variance.
\<close>

definition gaussian_sample ::
  "real tensor \<Rightarrow> real tensor \<Rightarrow> generator \<Rightarrow> error + (real tensor \<times> generator)" where
  "gaussian_sample means variances g = torch_normal means (elementwise sqrt variances) g"

text \<open>A network that returns its input as its output, and no hidden state.\<close>

definition echo_call ::
  "int \<Rightarrow> real tensor \<Rightarrow> unit option \<Rightarrow> generator \<Rightarrow>
   error + ((real tensor \<times> unit) \<times> generator)" where
  "echo_call m x h g = Inr ((x, ()), g)"

section \<open>Example objects\<close>

text \<open>
  A probabilistic model whose module has target size 2 (the module is represented by its
  target size alone), and a store holding one tensor of shape \<open>(1, 2, 4)\<close>.
\<close>

definition example_model :: "(int, unit, unit) RNNModel" where
  "example_model =
     \<lparr>base = \<lparr>model = 2, rest = ()\<rparr>,
      rnn_type_or_module = Str ''RNN'',
      dropout = 0,
      hidden_dim = 25,
      training_length = 24,
      is_recurrent = True,
      is_probabilistic = True\<rparr>"

definition example_store :: "int store" where
  "example_store = \<lparr>cells = (\<lambda>_. [])(0 := [[[1, 2, 3, 4], [5, 6, 7, 8]]]), next_free = 1\<rparr>"

text \<open>Two losses that return what they were given.\<close>

definition example_loss ::
  "string \<Rightarrow> int tensor \<Rightarrow> int tensor \<Rightarrow> int tensor \<Rightarrow>
   error + (string \<times> int tensor \<times> int tensor \<times> int tensor)" where
  "example_loss r i t v = Inr (r, i, t, v)"

definition example_super_loss ::
  "(int, unit, unit) RNNModel \<Rightarrow> int tensor \<Rightarrow> int tensor \<Rightarrow>
   error + (string \<times> int tensor \<times> int tensor \<times> int tensor)" where
  "example_super_loss self output target = Inr (''base'', output, target, [])"

text \<open>
  A base initialiser that keeps three of the keyword arguments it is given and refuses a
  batch size of zero, and keyword arguments in which the caller has set the output chunk
  length.
\<close>

definition example_super_init ::
  "unit kwargs \<Rightarrow> error + (unit, unit py_value option \<times> unit py_value option \<times> unit py_value option)
     TorchForecastingModel" where
  "example_super_init kw =
     (if kw ''batch_size'' = Some (IntV 0) then Inl BaseError
      else Inr \<lparr>model = (),
                rest = (kw ''input_chunk_length'', kw ''output_chunk_length'',
                        kw ''batch_size'')\<rparr>)"

definition example_kwargs :: "unit kwargs" where
  "example_kwargs = [''output_chunk_length'' \<mapsto> IntV 7, ''batch_size'' \<mapsto> IntV 32]"

text \<open>A probabilistic LSTM module with three input components and one target.\<close>

definition example_module :: RNNModule where
  "example_module =
     \<lparr>target_size = 1, name = ''LSTM'', module_is_probabilistic = True,
      rnn = \<lparr>mode = ''LSTM'', input_size = 3, hidden_size = 25, num_layers = 1,
             batch_first = True, rnn_dropout = 1 / 2\<rparr>,
      V = \<lparr>in_features = 25, out_features = 2\<rparr>\<rparr>"

section \<open>Properties\<close>

subsection \<open>Slices and views\<close>

lemma slice_upto_nonneg: "0 \<le> k \<Longrightarrow> slice_upto k xs = take (nat k) xs"
  by (simp add: slice_upto_def slice_bound_def min_def)

lemma slice_from_nonneg: "0 \<le> k \<Longrightarrow> slice_from k xs = drop (nat k) xs"
  by (simp add: slice_from_def slice_bound_def min_def)

lemma slice_upto_from_append: "slice_upto k xs @ slice_from k xs = xs"
  by (simp add: slice_upto_def slice_from_def)

lemma apply_slice_fun:
  "apply_slice (Upto k) = slice_upto k" "apply_slice (From k) = slice_from k"
  by (rule ext, simp)+

lemma deref_slice_ref:
  "deref st (slice_ref s r) = map (map (apply_slice s)) (deref st r)"
  by (simp add: deref_def slice_ref_def)

lemma deref_alloc_old:
  "storage r < next_free st \<Longrightarrow> deref (snd (alloc t st)) r = deref st r"
  by (simp add: deref_def alloc_def)

lemma deref_alloc_new: "deref (snd (alloc t st)) (fst (alloc t st)) = t"
  by (simp add: deref_def alloc_def map_idI)

lemma cells_alloc_old:
  "a < next_free st \<Longrightarrow> cells (snd (alloc t st)) a = cells st a"
  by (simp add: alloc_def)

lemma means_and_vars_store_refines:
  assumes "means_and_vars_from_output_store target_size_of Softplus self output st =
             ((m, v), st')"
    and live: "storage output < next_free st"
  shows "(deref st' m, deref st' v) =
           means_and_vars_from_output target_size_of Softplus self (deref st output)"
    and "storage m = storage output"
    and "storage v = next_free st"
    and "st' = snd (alloc (deref st' v) st)"
proof -
  let ?k = "target_size_of (model (base self))"
  let ?t = "elementwise Softplus (deref st (slice_ref (From ?k) output))"
  from assms have m: "m = slice_ref (Upto ?k) output"
    and v: "v = fst (alloc ?t st)" and st': "st' = snd (alloc ?t st)"
    by (simp_all add: means_and_vars_from_output_store_def activation_ref_def Let_def
        split: prod.splits)
  have dv: "deref st' v = ?t"
    unfolding v st' by (rule deref_alloc_new)
  have dm: "deref st' m = map (map (apply_slice (Upto ?k))) (deref st output)"
    unfolding m st' using live by (simp add: deref_def slice_ref_def alloc_def)
  show "(deref st' m, deref st' v) =
           means_and_vars_from_output target_size_of Softplus self (deref st output)"
    by (simp add: dm dv means_and_vars_from_output_def Let_def last_dim_upto_def
        last_dim_from_def deref_slice_ref apply_slice_fun)
  show "storage m = storage output" by (simp add: m slice_ref_def)
  show "storage v = next_free st" by (simp add: v alloc_def)
  show "st' = snd (alloc (deref st' v) st)" unfolding dv by (rule st')
qed

subsection \<open>The training dataset\<close>

text \<open>
  C1. For every target sequence and every (possibly absent) covariates sequence,
  \<^verbatim>\<open>_build_train_dataset\<close> returns the \<^verbatim>\<open>ShiftedDataset\<close> constructed from exactly
  that target and those covariates, with shift 1, length equal to the model's
  \<^verbatim>\<open>training_length\<close> and \<^verbatim>\<open>shift_covariates\<close> set to True: whatever the constructor
  is, the result is the constructor applied to one argument record, and that record has
  exactly these five fields.
\<close>

theorem build_train_dataset_args:
  "\<exists>args. build_train_dataset ShiftedDataset self target covs = ShiftedDataset args
     \<and> build_train_dataset id self target covs = args
     \<and> target_series args = target
     \<and> covariates args = covs
     \<and> shift args = 1
     \<and> ds_length args = training_length self
     \<and> shift_covariates args = True"
  by (simp add: build_train_dataset_def)

subsection \<open>Means and variances\<close>

text \<open>
  C2. For every network output whose last dimension has size at least \<^verbatim>\<open>target_size\<close>,
  \<^verbatim>\<open>_means_and_vars_from_output\<close> returns the pair of the means, the first
  \<^verbatim>\<open>target_size\<close> components of the last dimension (every row of the means has exactly
  that length), and the variances, the Softplus activation applied to each of the
  remaining components; the output tensor itself is not modified: it reads the same in
  the store after the call, and no storage that existed before has changed. The results
  read from the store are those of the method on values.
\<close>

theorem means_and_vars_from_output_slices:
  assumes run: "means_and_vars_from_output_store target_size_of Softplus self output st =
                  ((m, v), st')"
    and live: "storage output < next_free st"
    and size: "target_size_of (model (base self)) = int k"
    and wide: "\<forall>step \<in> set (concat (deref st output)). k \<le> length step"
  shows "means_and_vars_from_output target_size_of Softplus self (deref st output) =
           (deref st' m, deref st' v)
       \<and> deref st' m = map (map (take k)) (deref st output)
       \<and> deref st' v = map (map (\<lambda>step. map Softplus (drop k step))) (deref st output)
       \<and> (\<forall>step \<in> set (concat (deref st' m)). length step = k)
       \<and> deref st' output = deref st output
       \<and> (\<forall>a < next_free st. cells st' a = cells st a)"
proof -
  note r = means_and_vars_store_refines [OF run live]
  have pure: "means_and_vars_from_output target_size_of Softplus self (deref st output) =
      (map (map (take k)) (deref st output),
       map (map (\<lambda>step. map Softplus (drop k step))) (deref st output))"
    by (simp add: means_and_vars_from_output_def Let_def last_dim_upto_def last_dim_from_def
        elementwise_def size slice_upto_nonneg slice_from_nonneg comp_def)
  from r(1) pure have dm: "deref st' m = map (map (take k)) (deref st output)"
    and dv: "deref st' v = map (map (\<lambda>step. map Softplus (drop k step))) (deref st output)"
    by simp_all
  have len: "\<forall>step \<in> set (concat (deref st' m)). length step = k"
    using wide unfolding dm by (fastforce simp: min_def)
  have old: "\<forall>a < next_free st. cells st' a = cells st a"
    by (subst r(4)) (simp add: cells_alloc_old)
  have same: "deref st' output = deref st output"
    by (subst r(4)) (simp add: deref_alloc_old live)
  have pair: "means_and_vars_from_output target_size_of Softplus self (deref st output) =
      (deref st' m, deref st' v)"
    by (rule r(1) [symmetric])
  show ?thesis
    by (intro conjI) (rule pair dm dv len same old)+
qed

theorem means_and_vars_from_output_slices_witness:
  "(case means_and_vars_from_output_store id (\<lambda>x. x + 10) example_model
           \<lparr>storage = 0, view = []\<rparr> example_store of
      ((m, v), st') \<Rightarrow>
        deref st' m = [[[1, 2], [5, 6]]]
      \<and> deref st' v = [[[13, 14], [17, 18]]]
      \<and> deref st' \<lparr>storage = 0, view = []\<rparr> = [[[1, 2, 3, 4], [5, 6, 7, 8]]]
      \<and> means_and_vars_from_output id (\<lambda>x. x + 10) example_model
          [[[1, 2, 3, 4], [5, 6, 7, 8]]] = (deref st' m, deref st' v))"
proof -
  let ?out = "\<lparr>storage = 0, view = []\<rparr>"
  obtain m v st' where
    run: "means_and_vars_from_output_store id (\<lambda>x. x + 10) example_model ?out example_store
            = ((m, v), st')"
    by (metis surj_pair)
  have live: "storage ?out < next_free example_store"
    by (simp add: example_store_def)
  have size: "id (model (base example_model)) = int 2"
    by (simp add: example_model_def)
  have d: "deref example_store ?out = [[[1, 2, 3, 4], [5, 6, 7, 8]]]"
    by (simp add: deref_def example_store_def)
  have wide: "\<forall>step \<in> set (concat (deref example_store ?out)). 2 \<le> length step"
    by (simp add: d)
  note t = means_and_vars_from_output_slices [OF run live size wide, unfolded d]
  have "deref st' m = [[[1, 2], [5, 6]]]" using t by simp
  moreover have "deref st' v = [[[13, 14], [17, 18]]]" using t by simp
  moreover have "deref st' ?out = [[[1, 2, 3, 4], [5, 6, 7, 8]]]" using t by simp
  moreover have "means_and_vars_from_output id (\<lambda>x. x + 10) example_model
      [[[1, 2, 3, 4], [5, 6, 7, 8]]] = (deref st' m, deref st' v)"
    by (rule conjunct1 [OF t])
  ultimately show ?thesis
    unfolding run by simp
qed

subsection \<open>Prediction output\<close>

text \<open>
  The flow of data in \<^verbatim>\<open>_produce_predict_output\<close>, whatever the network and the
  sampler are: when \<^verbatim>\<open>is_probabilistic\<close> is False the result is exactly what the call of
  the underlying model returns (or raises); when it is True the means and the variances of
  \<^verbatim>\<open>_means_and_vars_from_output\<close> are the first and the second argument of
  \<^verbatim>\<open>torch.normal\<close>, and the value drawn is paired with the hidden state the model
  returned.
\<close>

lemma produce_predict_output_flow:
  "(\<not> is_probabilistic self \<longrightarrow>
      produce_predict_output call target_size_of Softplus normal self input h s =
        call (model (base self)) input h s)
   \<and> (is_probabilistic self \<longrightarrow>
        (\<forall>e. call (model (base self)) input h s = Inl e \<longrightarrow>
           produce_predict_output call target_size_of Softplus normal self input h s = Inl e)
      \<and> (\<forall>output hidden s1 means vars.
           call (model (base self)) input h s = Inr ((output, hidden), s1) \<and>
           means_and_vars_from_output target_size_of Softplus self output = (means, vars) \<longrightarrow>
           (\<forall>e. normal means vars s1 = Inl e \<longrightarrow>
              produce_predict_output call target_size_of Softplus normal self input h s = Inl e)
         \<and> (\<forall>sample s2. normal means vars s1 = Inr (sample, s2) \<longrightarrow>
              produce_predict_output call target_size_of Softplus normal self input h s =
                Inr ((sample, hidden), s2))))"
  by (simp add: produce_predict_output_def)

lemma ln2_not_sqrt: "ln 2 \<noteq> sqrt (ln (2::real))"
proof
  assume e: "ln 2 = sqrt (ln (2::real))"
  have pos: "0 < ln (2::real)" by simp
  have "(sqrt (ln (2::real)))\<^sup>2 = ln 2" using pos by simp
  with e have "(ln (2::real))\<^sup>2 = ln 2" by simp
  then have "ln (2::real) * (ln 2 - 1) = 0" by (simp add: power2_eq_square algebra_simps)
  with pos have "ln (2::real) = 1" by simp
  with ln_2_less_1 show False by simp
qed

lemma example_means_and_vars:
  "means_and_vars_from_output (\<lambda>m. m) nn_Softplus example_model [[[0, 0, 0, 0]]]
     = ([[[0, 0]]], [[[ln 2, ln 2]]])"
  by (simp add: means_and_vars_from_output_def example_model_def last_dim_upto_def
        last_dim_from_def elementwise_def slice_upto_def slice_from_def slice_bound_def
        nn_Softplus_def)

text \<open>
  C3. When \<^verbatim>\<open>is_probabilistic\<close> is True, \<^verbatim>\<open>_produce_predict_output\<close> is to return a
  Gaussian sample with the means and the variances that
  \<^verbatim>\<open>_means_and_vars_from_output\<close> gives for the output of the model. It does not: the
  second argument of \<^verbatim>\<open>torch.normal\<close> is a standard deviation, and the method hands it
  the variances. For a model with target size 2 whose network returns the output
  \<open>(0, 0, 0, 0)\<close>, the means are 0 and the variances \<open>ln 2\<close>; when every draw of the
  generator is 1 the method returns \<open>ln 2\<close> in both components, whereas the Gaussian
  sample with variance \<open>ln 2\<close> has \<open>sqrt (ln 2)\<close> there, a different number.
  \<^verbatim>\<open>_compute_loss\<close> passes the same tensor to the Gaussian loss as its variance.
\<close>

theorem produce_predict_output_std_for_variance:
  "means_and_vars_from_output (\<lambda>m. m) nn_Softplus example_model [[[0, 0, 0, 0]]]
     = ([[[0, 0]]], [[[ln 2, ln 2]]])
   \<and> produce_predict_output echo_call (\<lambda>m. m) nn_Softplus torch_normal example_model
       [[[0, 0, 0, 0]]] None (\<lambda>n. 1) = Inr (([[[ln 2, ln 2]]], ()), (\<lambda>n. 1))
   \<and> gaussian_sample [[[0, 0]]] [[[ln 2, ln 2]]] (\<lambda>n. 1)
       = Inr ([[[sqrt (ln 2), sqrt (ln 2)]]], (\<lambda>n. 1))
   \<and> ln 2 \<noteq> sqrt (ln (2::real))"
proof (intro conjI)
  show "means_and_vars_from_output (\<lambda>m. m) nn_Softplus example_model [[[0, 0, 0, 0]]]
     = ([[[0, 0]]], [[[ln 2, ln 2]]])" by (rule example_means_and_vars)
  show "produce_predict_output echo_call (\<lambda>m. m) nn_Softplus torch_normal example_model
       [[[0, 0, 0, 0]]] None (\<lambda>n. 1) = Inr (([[[ln 2, ln 2]]], ()), (\<lambda>n. 1))"
    by (simp add: produce_predict_output_def example_means_and_vars echo_call_def
        torch_normal_def tensor_shape_def)
      (simp add: example_model_def)
  show "gaussian_sample [[[0, 0]]] [[[ln 2, ln 2]]] (\<lambda>n. 1)
       = Inr ([[[sqrt (ln 2), sqrt (ln 2)]]], (\<lambda>n. 1))"
    by (simp add: gaussian_sample_def torch_normal_def tensor_shape_def elementwise_def)
  show "ln 2 \<noteq> sqrt (ln (2::real))" by (rule ln2_not_sqrt)
qed

subsection \<open>Loss\<close>

text \<open>
  C4. For every output and target, when \<^verbatim>\<open>is_probabilistic\<close> is True
  \<^verbatim>\<open>_compute_loss\<close> is the Gaussian negative log-likelihood loss with reduction
  \<^verbatim>\<open>'sum'\<close> on the means, the target and the variances that
  \<^verbatim>\<open>_means_and_vars_from_output\<close> gives for the output; when it is False it is the loss
  of the base class \<^verbatim>\<open>TorchForecastingModel\<close> on the same output and target.
\<close>

theorem compute_loss_cases:
  "(is_probabilistic self \<longrightarrow>
      (\<forall>means vars.
         means_and_vars_from_output target_size_of Softplus self output = (means, vars) \<longrightarrow>
         compute_loss GaussianNLLLoss super_compute_loss target_size_of Softplus self output target =
           GaussianNLLLoss ''sum'' means target vars))
   \<and> (\<not> is_probabilistic self \<longrightarrow>
        compute_loss GaussianNLLLoss super_compute_loss target_size_of Softplus self output target =
          super_compute_loss self output target)"
  by (simp add: compute_loss_def)

theorem compute_loss_cases_witness:
  "compute_loss example_loss example_super_loss id (\<lambda>x. x + 10) example_model
       [[[1, 2, 3, 4]]] [[[9, 9]]] = Inr (''sum'', [[[1, 2]]], [[[9, 9]]], [[[13, 14]]])
   \<and> compute_loss example_loss example_super_loss id (\<lambda>x. x + 10)
       (example_model\<lparr>is_probabilistic := False\<rparr>) [[[1, 2]]] [[[9, 9]]]
       = Inr (''base'', [[[1, 2]]], [[[9, 9]]], [])"
proof -
  have mv: "means_and_vars_from_output id (\<lambda>x. x + 10) example_model [[[1, 2, 3, 4]]]
      = ([[[1, 2]]], [[[13, 14]]])"
    by (simp add: means_and_vars_from_output_def example_model_def last_dim_upto_def
        last_dim_from_def elementwise_def slice_upto_def slice_from_def slice_bound_def)
  have p: "is_probabilistic example_model" by (simp add: example_model_def)
  have q: "\<not> is_probabilistic (example_model\<lparr>is_probabilistic := False\<rparr>)" by simp
  from compute_loss_cases
         [of example_model id "\<lambda>x. x + 10" "[[[1, 2, 3, 4]]]" example_loss example_super_loss
             "[[[9, 9]]]"]
       p mv
  have a: "compute_loss example_loss example_super_loss id (\<lambda>x. x + 10) example_model
       [[[1, 2, 3, 4]]] [[[9, 9]]] = example_loss ''sum'' [[[1, 2]]] [[[9, 9]]] [[[13, 14]]]"
    by blast
  from compute_loss_cases
         [of "example_model\<lparr>is_probabilistic := False\<rparr>" id "\<lambda>x. x + 10" "[[[1, 2]]]"
             example_loss example_super_loss "[[[9, 9]]]"]
       q
  have b: "compute_loss example_loss example_super_loss id (\<lambda>x. x + 10)
       (example_model\<lparr>is_probabilistic := False\<rparr>) [[[1, 2]]] [[[9, 9]]]
       = example_super_loss (example_model\<lparr>is_probabilistic := False\<rparr>) [[[1, 2]]] [[[9, 9]]]"
    by blast
  from a b show ?thesis
    by (simp add: example_loss_def example_super_loss_def)
qed

subsection \<open>Construction of the model\<close>

lemma RNNModel_init_after_super:
  assumes "super_init (kwargs(''input_chunk_length'' \<mapsto> IntV icl,
                              ''output_chunk_length'' \<mapsto> IntV 1)) = Inr b"
  shows "RNNModel_init super_init m icl hdim dout tlen prob rstate kwargs =
           (if m \<in> {Str ''RNN'', Str ''LSTM'', Str ''GRU''} \<or> isinstance_Module m
            then Inr \<lparr>base = b, rnn_type_or_module = m, dropout = dout, hidden_dim = hdim,
                      training_length = tlen, is_recurrent = True, is_probabilistic = prob\<rparr>
            else Inl ValueError)"
  using assms by (simp add: RNNModel_init_def raise_if_not_def)

lemma isinstance_Module_iff: "isinstance_Module m \<longleftrightarrow> (\<exists>u. m = Module u)"
  by (cases m) simp_all

text \<open>
  C5. Once the initialiser of the base class has returned, \<^verbatim>\<open>RNNModel.__init__\<close>
  succeeds for every \<^verbatim>\<open>model\<close> argument that is one of the strings \<^verbatim>\<open>"RNN"\<close>,
  \<^verbatim>\<open>"LSTM"\<close>, \<^verbatim>\<open>"GRU"\<close> or an instance of \<^verbatim>\<open>nn.Module\<close>, and then stores the
  argument unchanged as \<^verbatim>\<open>rnn_type_or_module\<close>; for every other argument it raises an
  error.
\<close>

theorem RNNModel_init_model_check:
  assumes "super_init (kwargs(''input_chunk_length'' \<mapsto> IntV icl,
                              ''output_chunk_length'' \<mapsto> IntV 1)) = Inr b"
  shows "(m \<in> {Str ''RNN'', Str ''LSTM'', Str ''GRU''} \<or> (\<exists>u. m = Module u) \<longrightarrow>
            (\<exists>self. RNNModel_init super_init m icl hdim dout tlen prob rstate kwargs = Inr self
                    \<and> rnn_type_or_module self = m))
       \<and> (\<not> (m \<in> {Str ''RNN'', Str ''LSTM'', Str ''GRU''} \<or> (\<exists>u. m = Module u)) \<longrightarrow>
            RNNModel_init super_init m icl hdim dout tlen prob rstate kwargs = Inl ValueError)"
  unfolding RNNModel_init_after_super [of super_init kwargs icl b, OF assms]
    isinstance_Module_iff [symmetric]
  by simp

theorem RNNModel_init_model_check_witness:
  "(\<exists>self. RNNModel_init example_super_init (Str ''LSTM'') 12 25 0 24 False
              (None :: unit option) example_kwargs = Inr self
          \<and> rnn_type_or_module self = (Str ''LSTM'' :: unit model_arg))
   \<and> (\<exists>self. RNNModel_init example_super_init (Module ()) 12 25 0 24 False
              (None :: unit option) example_kwargs = Inr self
          \<and> rnn_type_or_module self = Module ())
   \<and> RNNModel_init example_super_init (Str ''Transformer'' :: unit model_arg) 12 25 0 24 False
         (None :: unit option) example_kwargs = Inl ValueError
   \<and> RNNModel_init example_super_init (Other PyNone :: unit model_arg) 12 25 0 24 False
         (None :: unit option) example_kwargs = Inl ValueError"
proof -
  have s: "example_super_init
      (example_kwargs(''input_chunk_length'' \<mapsto> IntV 12, ''output_chunk_length'' \<mapsto> IntV 1))
      = Inr \<lparr>model = (), rest = (Some (IntV 12), Some (IntV 1), Some (IntV 32))\<rparr>"
    by (simp add: example_super_init_def example_kwargs_def)
  note t = RNNModel_init_model_check [of example_super_init example_kwargs 12 _ _ 25 0 24 False None, OF s]
  have a: "\<exists>self. RNNModel_init example_super_init (Str ''LSTM'') 12 25 0 24 False
              (None :: unit option) example_kwargs = Inr self
          \<and> rnn_type_or_module self = (Str ''LSTM'' :: unit model_arg)"
    using t [of "Str ''LSTM''"] by simp
  have b: "\<exists>self. RNNModel_init example_super_init (Module ()) 12 25 0 24 False
              (None :: unit option) example_kwargs = Inr self
          \<and> rnn_type_or_module self = Module ()"
    using t [of "Module ()"] by simp
  have c: "RNNModel_init example_super_init (Str ''Transformer'' :: unit model_arg) 12 25 0 24
         False (None :: unit option) example_kwargs = Inl ValueError"
    using t [of "Str ''Transformer''"] by simp
  have d: "RNNModel_init example_super_init (Other PyNone :: unit model_arg) 12 25 0 24 False
         (None :: unit option) example_kwargs = Inl ValueError"
    using t [of "Other PyNone"] by simp
  from a b c d show ?thesis by (intro conjI)
qed

text \<open>
  C8. For every keyword-argument dictionary passed to \<^verbatim>\<open>RNNModel.__init__\<close>, the base
  class is initialised with one dictionary \<open>K\<close> in which \<^verbatim>\<open>output_chunk_length\<close> is 1
  and \<^verbatim>\<open>input_chunk_length\<close> is the parameter of that name, whatever the caller had
  put under these two keys, and which is the caller's dictionary at every other key:
  whatever the base initialiser is, its error on \<open>K\<close> is the error of \<^verbatim>\<open>__init__\<close>, and
  when \<^verbatim>\<open>__init__\<close> succeeds the base part of the object is what the base initialiser
  returned on \<open>K\<close>.
\<close>

theorem RNNModel_init_kwargs:
  "\<exists>K. K ''output_chunk_length'' = Some (IntV 1)
      \<and> K ''input_chunk_length'' = Some (IntV icl)
      \<and> (\<forall>k. k \<noteq> ''output_chunk_length'' \<and> k \<noteq> ''input_chunk_length'' \<longrightarrow> K k = kwargs k)
      \<and> (\<forall>super_init.
            (\<forall>e. super_init K = Inl e \<longrightarrow>
               RNNModel_init super_init m icl hdim dout tlen prob rstate kwargs = Inl e)
          \<and> (\<forall>self. RNNModel_init super_init m icl hdim dout tlen prob rstate kwargs = Inr self \<longrightarrow>
               super_init K = Inr (base self)))"
proof -
  let ?K = "kwargs(''input_chunk_length'' \<mapsto> IntV icl, ''output_chunk_length'' \<mapsto> IntV 1)"
  have keys: "?K ''output_chunk_length'' = Some (IntV 1)"
    "?K ''input_chunk_length'' = Some (IntV icl)"
    by simp_all
  have others: "\<forall>k. k \<noteq> ''output_chunk_length'' \<and> k \<noteq> ''input_chunk_length'' \<longrightarrow> ?K k = kwargs k"
    by simp
  have calls: "\<forall>super_init.
            (\<forall>e. super_init ?K = Inl e \<longrightarrow>
               RNNModel_init super_init m icl hdim dout tlen prob rstate kwargs = Inl e)
          \<and> (\<forall>self. RNNModel_init super_init m icl hdim dout tlen prob rstate kwargs = Inr self \<longrightarrow>
               super_init ?K = Inr (base self))"
    by (auto simp: RNNModel_init_def split: sum.splits if_splits)
  from keys others calls show ?thesis
    by (intro exI [of _ ?K] conjI)
qed

theorem RNNModel_init_kwargs_witness:
  "\<exists>self. RNNModel_init example_super_init (Str ''RNN'' :: unit model_arg) 12 25 0 24 False
            (None :: unit option) example_kwargs = Inr self
        \<and> rest (base self) = (Some (IntV 12), Some (IntV 1), Some (IntV 32))"
proof -
  have "\<exists>K. K ''output_chunk_length'' = Some (IntV 1)
      \<and> K ''input_chunk_length'' = Some (IntV 12)
      \<and> (\<forall>k. k \<noteq> ''output_chunk_length'' \<and> k \<noteq> ''input_chunk_length'' \<longrightarrow> K k = example_kwargs k)
      \<and> (\<forall>super_init :: unit kwargs \<Rightarrow> error +
              (unit, unit py_value option \<times> unit py_value option \<times> unit py_value option)
                TorchForecastingModel.
            (\<forall>e. super_init K = Inl e \<longrightarrow>
               RNNModel_init super_init (Str ''RNN'' :: unit model_arg) 12 25 0 24 False
                 (None :: unit option) example_kwargs = Inl e)
          \<and> (\<forall>self. RNNModel_init super_init (Str ''RNN'' :: unit model_arg) 12 25 0 24 False
                 (None :: unit option) example_kwargs = Inr self \<longrightarrow>
               super_init K = Inr (base self)))"
    by (rule RNNModel_init_kwargs)
  then obtain K :: "unit kwargs" where
    k1: "K ''output_chunk_length'' = Some (IntV 1)"
    and k2: "K ''input_chunk_length'' = Some (IntV 12)"
    and others: "\<forall>k. k \<noteq> ''output_chunk_length'' \<and> k \<noteq> ''input_chunk_length'' \<longrightarrow>
                  K k = example_kwargs k"
    and calls: "\<forall>super_init :: unit kwargs \<Rightarrow> error +
              (unit, unit py_value option \<times> unit py_value option \<times> unit py_value option)
                TorchForecastingModel.
            (\<forall>e. super_init K = Inl e \<longrightarrow>
               RNNModel_init super_init (Str ''RNN'' :: unit model_arg) 12 25 0 24 False
                 (None :: unit option) example_kwargs = Inl e)
          \<and> (\<forall>self. RNNModel_init super_init (Str ''RNN'' :: unit model_arg) 12 25 0 24 False
                 (None :: unit option) example_kwargs = Inr self \<longrightarrow>
               super_init K = Inr (base self))"
    by (elim exE conjE) (rule that; assumption)
  have k3: "K ''batch_size'' = example_kwargs ''batch_size''"
    using others [rule_format, of "''batch_size''"] by simp
  have k4: "example_super_init K = Inr (base self)"
    if "RNNModel_init example_super_init (Str ''RNN'' :: unit model_arg) 12 25 0 24
                 False (None :: unit option) example_kwargs = Inr self" for self
    using calls [rule_format, of example_super_init] that by blast
  obtain self where
    run: "RNNModel_init example_super_init (Str ''RNN'' :: unit model_arg) 12 25 0 24 False
            (None :: unit option) example_kwargs = Inr self"
    by (simp add: RNNModel_init_def example_super_init_def example_kwargs_def)
  from k4 [OF run, symmetric] k1 k2 k3
  have "base self = \<lparr>model = (), rest = (Some (IntV 12), Some (IntV 1), Some (IntV 32))\<rparr>"
    by (simp add: example_super_init_def example_kwargs_def)
  then have "rest (base self) = (Some (IntV 12), Some (IntV 1), Some (IntV 32))"
    by simp
  with run show ?thesis by blast
qed

subsection \<open>The recurrent module\<close>

lemma RNNModule_init_Inr:
  "RNNModule_init n i h t d p = Inr m \<longleftrightarrow>
     n \<in> {''RNN'', ''LSTM'', ''GRU''} \<and> 0 \<le> d \<and> d \<le> 1 \<and> 0 < h \<and> 0 \<le> i
     \<and> 0 \<le> t + int_of_bool p * t
     \<and> m = \<lparr>target_size = t, name = n, module_is_probabilistic = p,
            rnn = \<lparr>mode = n, input_size = i, hidden_size = h, num_layers = 1,
                   batch_first = True, rnn_dropout = d\<rparr>,
            V = \<lparr>in_features = h, out_features = t + int_of_bool p * t\<rparr>\<rparr>"
  by (auto simp: RNNModule_init_def nn_recurrent_def nn_Linear_def split: sum.splits if_splits)



text \<open>
  C6. For every \<^verbatim>\<open>input_dim\<close> and \<^verbatim>\<open>output_dim\<close>, when \<^verbatim>\<open>rnn_type_or_module\<close> is one
  of the strings \<^verbatim>\<open>"RNN"\<close>, \<^verbatim>\<open>"LSTM"\<close>, \<^verbatim>\<open>"GRU"\<close>, what \<^verbatim>\<open>_create_model\<close> returns
  is an \<^verbatim>\<open>_RNNModule\<close> whose name is that string, whose input size is \<^verbatim>\<open>input_dim\<close>,
  whose target size is \<^verbatim>\<open>output_dim\<close>, and whose hidden size, dropout and probabilistic
  flag are those stored in the model; it does return one when the sizes and the dropout
  are ones PyTorch accepts. Otherwise it returns the stored module unchanged.
\<close>

theorem create_model_cases:
  "(\<forall>s. rnn_type_or_module self = Str s \<and> s \<in> {''RNN'', ''LSTM'', ''GRU''} \<longrightarrow>
      (\<forall>r. create_model self idim odim = Inr r \<longrightarrow>
         (\<exists>m. r = Built m \<and> name m = s \<and> input_size (rnn m) = idim
            \<and> target_size m = odim \<and> hidden_size (rnn m) = hidden_dim self
            \<and> rnn_dropout (rnn m) = dropout self
            \<and> module_is_probabilistic m = is_probabilistic self))
    \<and> (0 \<le> idim \<and> 0 < hidden_dim self \<and> 0 \<le> odim \<and> 0 \<le> dropout self \<and> dropout self \<le> 1 \<longrightarrow>
         (\<exists>m. create_model self idim odim = Inr (Built m))))
   \<and> (rnn_type_or_module self \<notin> {Str ''RNN'', Str ''LSTM'', Str ''GRU''} \<longrightarrow>
        create_model self idim odim = Inr (Supplied (rnn_type_or_module self)))"
proof (intro conjI allI impI)
  fix s r
  assume s: "rnn_type_or_module self = Str s \<and> s \<in> {''RNN'', ''LSTM'', ''GRU''}"
    and r: "create_model self idim odim = Inr r"
  from s r obtain m where
    m: "RNNModule_init s idim (hidden_dim self) odim (dropout self) (is_probabilistic self) = Inr m"
    and rm: "r = Built m"
    by (auto simp: create_model_def split: sum.splits)
  from m show "\<exists>m. r = Built m \<and> name m = s \<and> input_size (rnn m) = idim
            \<and> target_size m = odim \<and> hidden_size (rnn m) = hidden_dim self
            \<and> rnn_dropout (rnn m) = dropout self
            \<and> module_is_probabilistic m = is_probabilistic self"
    unfolding rm RNNModule_init_Inr by simp
next
  fix s
  assume s: "rnn_type_or_module self = Str s \<and> s \<in> {''RNN'', ''LSTM'', ''GRU''}"
    and ok: "0 \<le> idim \<and> 0 < hidden_dim self \<and> 0 \<le> odim \<and> 0 \<le> dropout self \<and> dropout self \<le> 1"
  from ok have "0 \<le> odim + int_of_bool (is_probabilistic self) * odim"
    by (simp add: int_of_bool_def)
  with s ok have "\<exists>m. RNNModule_init s idim (hidden_dim self) odim (dropout self)
      (is_probabilistic self) = Inr m"
    unfolding RNNModule_init_Inr by simp
  with s show "\<exists>m. create_model self idim odim = Inr (Built m)"
    by (auto simp: create_model_def)
next
  assume "rnn_type_or_module self \<notin> {Str ''RNN'', Str ''LSTM'', Str ''GRU''}"
  then show "create_model self idim odim = Inr (Supplied (rnn_type_or_module self))"
    by (simp add: create_model_def)
qed

theorem create_model_cases_witness:
  "(\<exists>m. create_model example_model 3 1 = Inr (Built m) \<and> name m = ''RNN''
        \<and> input_size (rnn m) = 3 \<and> target_size m = 1 \<and> hidden_size (rnn m) = 25
        \<and> rnn_dropout (rnn m) = 0 \<and> module_is_probabilistic m)
   \<and> create_model (example_model\<lparr>rnn_type_or_module := Module ()\<rparr>) 3 1
        = Inr (Supplied (Module ()))"
proof -
  note t = create_model_cases [of example_model 3 1]
  have s: "rnn_type_or_module example_model = Str ''RNN'' \<and> ''RNN'' \<in> {''RNN'', ''LSTM'', ''GRU''}"
    by (simp add: example_model_def)
  have ok: "(0::int) \<le> 3 \<and> 0 < hidden_dim example_model \<and> (0::int) \<le> 1
      \<and> 0 \<le> dropout example_model \<and> dropout example_model \<le> 1"
    by (simp add: example_model_def)
  from t s ok obtain m where m: "create_model example_model 3 1 = Inr (Built m)"
    by blast
  from t s m have "\<exists>m'. Built m = Built m' \<and> name m' = ''RNN'' \<and> input_size (rnn m') = 3
      \<and> target_size m' = 1 \<and> hidden_size (rnn m') = hidden_dim example_model
      \<and> rnn_dropout (rnn m') = dropout example_model
      \<and> module_is_probabilistic m' = is_probabilistic example_model"
    by blast
  then have a: "name m = ''RNN'' \<and> input_size (rnn m) = 3 \<and> target_size m = 1
      \<and> hidden_size (rnn m) = 25 \<and> rnn_dropout (rnn m) = 0 \<and> module_is_probabilistic m"
    by (simp add: example_model_def)
  have n: "rnn_type_or_module (example_model\<lparr>rnn_type_or_module := Module ()\<rparr>)
      \<notin> {Str ''RNN'', Str ''LSTM'', Str ''GRU''}"
    by simp
  from create_model_cases [of "example_model\<lparr>rnn_type_or_module := Module ()\<rparr>" 3 1] n
  have b: "create_model (example_model\<lparr>rnn_type_or_module := Module ()\<rparr>) 3 1
        = Inr (Supplied (Module ()))"
    by simp
  from m a b show ?thesis by blast
qed

subsection \<open>Shape of the forward pass\<close>

lemma view_infer_middle:
  assumes "0 < b" "0 < k"
  shows "view_infer [b, l, nat k] (int b) k = Inr [b, l, nat k]"
proof -
  have n: "int (prod_list [b, l, nat k]) = int l * (int b * k)"
    using assms by simp
  have pos: "0 < int b * k" using assms by simp
  have "(int l * (int b * k)) mod (int b * k) = 0" by simp
  moreover have "(int l * (int b * k)) div (int b * k) = int l"
    using assms by simp
  ultimately show ?thesis
    using pos assms unfolding view_infer_def Let_def n by simp
qed

lemma view_infer_Inr:
  assumes "view_infer [b, l, nat k] (int b) k = Inr y" "0 \<le> k"
  shows "y = [b, l, nat k]"
proof -
  from assms have pos: "0 < int b * k"
    by (auto simp: view_infer_def Let_def split: if_splits)
  have "b \<noteq> 0"
  proof
    assume "b = 0"
    with pos show False by simp
  qed
  moreover have "k \<noteq> 0"
  proof
    assume "k = 0"
    with pos show False by simp
  qed
  ultimately have "0 < b" "0 < k" using assms(2) by simp_all
  from view_infer_middle [OF this] assms(1) show ?thesis by simp
qed

lemma forward_built:
  assumes "RNNModule_init n i h t d p = Inr m"
  shows "forward m [b, l, nat i] h0 =
           (if l = 0 \<or> (h0 \<noteq> None \<and> h0 \<noteq> Some (new_hidden (rnn m) b)) then Inl RuntimeError
            else case view_infer [b, l, nat (t + int_of_bool p * t)] (int b)
                        (t + int_of_bool p * t) of
                   Inl e \<Rightarrow> Inl e
                 | Inr y \<Rightarrow> Inr (y, new_hidden (rnn m) b))"
  using assms unfolding RNNModule_init_Inr
  by (cases h0)
    (auto simp: forward_def size0_def rnn_forward_def linear_forward_def Let_def
      split: sum.splits)

lemma out_size: "t + int_of_bool p * t = (if p then 2 * t else t)"
  by (simp add: int_of_bool_def)

text \<open>
  C7. For a module built by the constructor and every input of shape
  \<^verbatim>\<open>(batch_size, input_length, input_size)\<close>, the first tensor \<^verbatim>\<open>forward\<close> returns has
  shape \<^verbatim>\<open>(batch_size, input_length, target_size)\<close> when the module is not probabilistic
  and \<^verbatim>\<open>(batch_size, input_length, 2 * target_size)\<close> when it is, the linear layer
  having \<^verbatim>\<open>target_size + int(probabilistic) * target_size\<close> output features; and
  \<^verbatim>\<open>forward\<close> does return when the three sizes are positive and the hidden state, if
  given, has the shape the layer expects.
\<close>

theorem forward_shape:
  assumes built: "RNNModule_init n i h t d p = Inr m"
  shows "(\<forall>pred hid. forward m [b, l, nat i] h0 = Inr (pred, hid) \<longrightarrow>
            pred = [b, l, nat (if p then 2 * t else t)])
       \<and> (0 < b \<and> 0 < l \<and> 0 < t \<and> (h0 = None \<or> h0 = Some (new_hidden (rnn m) b)) \<longrightarrow>
            (\<exists>hid. forward m [b, l, nat i] h0 = Inr ([b, l, nat (if p then 2 * t else t)], hid)))"
proof (intro conjI allI impI)
  let ?k = "t + int_of_bool p * t"
  from built have k: "0 \<le> ?k" unfolding RNNModule_init_Inr by simp
  fix pred hid
  assume "forward m [b, l, nat i] h0 = Inr (pred, hid)"
  then have "view_infer [b, l, nat ?k] (int b) ?k = Inr pred"
    unfolding forward_built [OF built] by (auto split: if_splits sum.splits)
  from view_infer_Inr [OF this k] show "pred = [b, l, nat (if p then 2 * t else t)]"
    by (simp only: out_size)
next
  let ?k = "t + int_of_bool p * t"
  assume a: "0 < b \<and> 0 < l \<and> 0 < t \<and> (h0 = None \<or> h0 = Some (new_hidden (rnn m) b))"
  then have "0 < ?k" by (simp add: int_of_bool_def)
  with a have "view_infer [b, l, nat ?k] (int b) ?k = Inr [b, l, nat ?k]"
    by (simp add: view_infer_middle)
  with a have "forward m [b, l, nat i] h0 = Inr ([b, l, nat ?k], new_hidden (rnn m) b)"
    unfolding forward_built [OF built] by auto
  then show "\<exists>hid. forward m [b, l, nat i] h0 = Inr ([b, l, nat (if p then 2 * t else t)], hid)"
    by (simp only: out_size) blast
qed

theorem forward_shape_witness:
  "RNNModule_init ''LSTM'' 3 25 1 (1 / 2) True = Inr example_module
   \<and> (\<exists>hid. forward example_module [4, 12, 3] None = Inr ([4, 12, 2], hid))
   \<and> forward example_module [0, 12, 3] None = Inl RuntimeError"
proof -
  have built: "RNNModule_init ''LSTM'' 3 25 1 (1 / 2) True = Inr example_module"
    by (simp add: RNNModule_init_Inr example_module_def int_of_bool_def)
  have "\<exists>hid. forward example_module [4, 12, nat 3] None =
      Inr ([4, 12, nat (if True then 2 * 1 else 1)], hid)"
    using forward_shape [OF built, of 4 12 None] by simp
  then have a: "\<exists>hid. forward example_module [4, 12, 3] None = Inr ([4, 12, 2], hid)"
    by simp
  have b: "forward example_module [0, 12, 3] None = Inl RuntimeError"
    by (simp add: forward_def size0_def rnn_forward_def linear_forward_def view_infer_def
        example_module_def int_of_bool_def new_hidden_def hidden_shape_def)
  from built a b show ?thesis by (intro conjI)
qed

end
